theory Spec2Isabelle
  imports Main "HOL-Library.Word"
begin

section \<open>The storage package of go-persista\<close>

text \<open>
  A shallow embedding of \<^verbatim>\<open>package storage\<close>: the in-memory map with per-entry
  expiry, its lazy eviction on \<^verbatim>\<open>Get\<close>, the janitor sweep, and the snapshot
  \<^verbatim>\<open>save\<close>/\<^verbatim>\<open>load\<close> pair.

  Conventions of the model:
  \<^item> a \<^verbatim>\<open>time.Time\<close> is an instant on one linear scale, an \<open>int\<close> count of
    nanoseconds; \<^verbatim>\<open>t.Before(u)\<close> is \<open>t < u\<close>;
  \<^item> every call of \<^verbatim>\<open>time.Now()\<close> is an explicit argument \<open>now\<close>;
  \<^item> a \<^verbatim>\<open>[]byte\<close> is a list of bytes, the nil slice being the empty list;
  \<^item> a value of the Go type \<^verbatim>\<open>map[string]Object\<close> is either the nil map or an
    allocated map, a partial function; a method that mutates it returns the new value.
\<close>

subsection \<open>Data model\<close>

type_synonym byte = "8 word"

type_synonym instant = int

text \<open>\<^verbatim>\<open>type Object struct { Data []byte; Expires *time.Time }\<close>\<close>

record Object =
  Data :: "byte list"
  Expires :: "instant option"

text \<open>
  The field \<^verbatim>\<open>storage map[string]Object\<close>. \<^verbatim>\<open>New\<close> allocates it with \<^verbatim>\<open>make\<close>;
  a decoder that is handed its address may set it to nil.
\<close>

datatype storage = NilMap | Entries "string \<rightharpoonup> Object"

definition make_map :: storage where
  "make_map = Entries Map.empty"

text \<open>Reading a map, nil or not: \<^verbatim>\<open>obj, ok := m[key]\<close> is \<open>entries m key\<close>.\<close>

primrec entries :: "storage \<Rightarrow> (string \<rightharpoonup> Object)" where
  "entries NilMap = Map.empty"
| "entries (Entries m) = m"

text \<open>\<^verbatim>\<open>len(m)\<close>; the length of the nil map is 0.\<close>

definition len :: "storage \<Rightarrow> nat" where
  "len m = card (dom (entries m))"

text \<open>\<^verbatim>\<open>delete(m, key)\<close>; on the nil map it does nothing.\<close>

primrec map_delete :: "storage \<Rightarrow> string \<Rightarrow> storage" where
  "map_delete NilMap key = NilMap"
| "map_delete (Entries m) key = Entries (m(key := None))"



text \<open>\<^verbatim>\<open>func (t Time) Before(u Time) bool\<close>: strictly earlier.\<close>

definition Before :: "instant \<Rightarrow> instant \<Rightarrow> bool" where
  "Before t u \<longleftrightarrow> t < u"

text \<open>
  The test \<^verbatim>\<open>obj.Expires != nil && obj.Expires.Before(time.Now())\<close>, which both
  \<^verbatim>\<open>Get\<close> and the janitor apply to an entry.
\<close>

definition expired :: "Object \<Rightarrow> instant \<Rightarrow> bool" where
  "expired obj now = (case Expires obj of None \<Rightarrow> False | Some t \<Rightarrow> Before t now)"

text \<open>
  The specification's wording of the same notion: an entry is expired iff its expiry is
  present and \<open>expiresAt \<le> now\<close>.
\<close>

definition spec_expired :: "Object \<Rightarrow> instant \<Rightarrow> bool" where
  "spec_expired obj now = (case Expires obj of None \<Rightarrow> False | Some t \<Rightarrow> t \<le> now)"

subsection \<open>Put and Get\<close>


text \<open>
  \<^verbatim>\<open>func (s *Storage) Get(key string) ([]byte, bool)\<close>. The result is the map after
  the call, the returned bytes and the \<^verbatim>\<open>found\<close> flag.
\<close>

definition Get :: "storage \<Rightarrow> string \<Rightarrow> instant \<Rightarrow> storage \<times> byte list \<times> bool" where
  "Get s key now =
     (case entries s key of
        None \<Rightarrow> (s, [], False)
      | Some obj \<Rightarrow>
          if expired obj now then (map_delete s key, [], False)
          else (s, Data obj, True))"

subsection \<open>The janitor\<close>

text \<open>
  The body of the \<^verbatim>\<open>case <-ticker.C\<close> branch of \<^verbatim>\<open>janitor\<close>, run under the write
  lock:
  \<^verbatim>\<open>for key, obj := range s.storage {
       if obj.Expires != nil && obj.Expires.Before(time.Now()) { delete(s.storage, key) } }\<close>
  The argument \<open>visits\<close> is the iteration of \<^verbatim>\<open>range\<close>: the keys in the order in which
  the loop reaches them, each with the reading of \<^verbatim>\<open>time.Now()\<close> taken in its iteration.
  A key that is no longer in the map is not produced by \<^verbatim>\<open>range\<close>.
\<close>

fun janitor_tick :: "(string \<times> instant) list \<Rightarrow> storage \<Rightarrow> storage" where
  "janitor_tick [] s = s"
| "janitor_tick ((key, now) # rest) s =
     (case entries s key of
        None \<Rightarrow> janitor_tick rest s
      | Some obj \<Rightarrow>
          if expired obj now then janitor_tick rest (map_delete s key)
          else janitor_tick rest s)"

text \<open>
  Go's \<^verbatim>\<open>range\<close> over a map from which only the current key is deleted produces every
  key of the map exactly once; over the nil map it produces nothing.
\<close>

definition range_of :: "(string \<times> instant) list \<Rightarrow> storage \<Rightarrow> bool" where
  "range_of visits s \<longleftrightarrow> distinct (map fst visits) \<and> fst ` set visits = dom (entries s)"

subsection \<open>Files and encoders\<close>

text \<open>
  \<^verbatim>\<open>type Format string\<close> with its two constants. Any other string is still a value of
  the type.
\<close>

type_synonym Format = string

definition JSONFormat :: Format where
  "JSONFormat = ''json''"

definition GobFormat :: Format where
  "GobFormat = ''gob''"

text \<open>The wrapped errors that \<^verbatim>\<open>save\<close> and \<^verbatim>\<open>load\<close> build with \<^verbatim>\<open>fmt.Errorf\<close>.\<close>

datatype error =
  CreateFileError | JsonEncodeError | GobEncodeError
  | OpenGobFileError | OpenJsonFileError | JsonDecodeError | GobDecodeError

text \<open>
  The directory the process runs in: the content of every existing file, the paths on which
  \<^verbatim>\<open>os.Open\<close> fails with an error other than not-exist, and the paths on which
  \<^verbatim>\<open>os.Create\<close> fails.
\<close>

record filesystem =
  files :: "string \<rightharpoonup> byte list"
  unreadable :: "string set"
  uncreatable :: "string set"

datatype os_error = ErrNotExist | ErrOther

definition os_IsNotExist :: "os_error \<Rightarrow> bool" where
  "os_IsNotExist err \<longleftrightarrow> err = ErrNotExist"

definition os_Open :: "filesystem \<Rightarrow> string \<Rightarrow> os_error + byte list" where
  "os_Open fs path =
     (if path \<in> unreadable fs then Inl ErrOther
      else case files fs path of None \<Rightarrow> Inl ErrNotExist | Some content \<Rightarrow> Inr content)"

text \<open>\<^verbatim>\<open>os.Create\<close> creates the file or truncates the one that exists.\<close>

definition os_Create :: "filesystem \<Rightarrow> string \<Rightarrow> os_error + filesystem" where
  "os_Create fs path =
     (if path \<in> uncreatable fs then Inl ErrOther
      else Inr (fs\<lparr>files := (files fs)(path \<mapsto> [])\<rparr>))"

definition write_file :: "filesystem \<Rightarrow> string \<Rightarrow> byte list \<Rightarrow> filesystem" where
  "write_file fs path content = fs\<lparr>files := (files fs)(path \<mapsto> content)\<rparr>"

text \<open>
  \<^verbatim>\<open>encoding/json\<close> and \<^verbatim>\<open>encoding/gob\<close> are libraries, not part of the package; the
  model takes each as a parameter. \<open>Encode c m\<close> is what \<^verbatim>\<open>NewEncoder(file).Encode(m)\<close>
  writes to the file together with whether it returned an error; \<open>Decode c content m\<close> is
  the map that \<^verbatim>\<open>NewDecoder(file).Decode(&m)\<close> leaves behind, on a file with that content
  and a target map \<open>m\<close>, together with whether it returned an error. The decoder
  receives the address of the map, so the map it leaves may be the nil map.
\<close>

record codec =
  Encode :: "storage \<Rightarrow> byte list \<times> bool"
  Decode :: "byte list \<Rightarrow> storage \<Rightarrow> storage \<times> bool"

subsection \<open>save and load\<close>

text \<open>
  \<^verbatim>\<open>func (s *Storage) save(name string, format Format) (int, error)\<close>. The result is the
  file system after the call and either the error or the returned count. The
  \<^verbatim>\<open>switch\<close> has no default branch.
\<close>

definition save ::
  "codec \<Rightarrow> codec \<Rightarrow> filesystem \<Rightarrow> storage \<Rightarrow> string \<Rightarrow> Format \<Rightarrow> filesystem \<times> (error + nat)" where
  "save json gob fs s name format =
     (case os_Create fs (name @ ''.'' @ format) of
        Inl err \<Rightarrow> (fs, Inl CreateFileError)
      | Inr fs' \<Rightarrow>
          if format = JSONFormat then
            (case Encode json s of
               (out, failed) \<Rightarrow>
                 (write_file fs' (name @ ''.'' @ format) out,
                  if failed then Inl JsonEncodeError else Inr (len s)))
          else if format = GobFormat then
            (case Encode gob s of
               (out, failed) \<Rightarrow>
                 (write_file fs' (name @ ''.'' @ format) out,
                  if failed then Inl GobEncodeError else Inr (len s)))
          else (fs', Inr (len s)))"

text \<open>
  The second half of \<^verbatim>\<open>load\<close>: the \<^verbatim>\<open>switch format\<close> that decodes the opened file
  into \<^verbatim>\<open>s.storage\<close> and returns \<^verbatim>\<open>len(s.storage)\<close>. The map is not reset when the
  decoder fails.
\<close>

definition load_decode ::
  "codec \<Rightarrow> codec \<Rightarrow> Format \<Rightarrow> byte list \<Rightarrow> storage \<Rightarrow> storage \<times> (error + nat)" where
  "load_decode json gob format file s =
     (if format = JSONFormat then
        (case Decode json file s of
           (s', failed) \<Rightarrow> (s', if failed then Inl JsonDecodeError else Inr (len s')))
      else if format = GobFormat then
        (case Decode gob file s of
           (s', failed) \<Rightarrow> (s', if failed then Inl GobDecodeError else Inr (len s')))
      else (s, Inr (len s)))"

text \<open>
  \<^verbatim>\<open>func (s *Storage) load(name string) (int, error)\<close>: the gob file first, the json
  file when the gob file does not exist. The result is the map after the call and either
  the error or the returned count.
\<close>

definition load ::
  "codec \<Rightarrow> codec \<Rightarrow> filesystem \<Rightarrow> storage \<Rightarrow> string \<Rightarrow> storage \<times> (error + nat)" where
  "load json gob fs s name =
     (case os_Open fs (name @ ''.'' @ GobFormat) of
        Inr file \<Rightarrow> load_decode json gob GobFormat file s
      | Inl err \<Rightarrow>
          if \<not> os_IsNotExist err then (s, Inl OpenGobFileError)
          else
            (case os_Open fs (name @ ''.'' @ JSONFormat) of
               Inr file \<Rightarrow> load_decode json gob JSONFormat file s
             | Inl err \<Rightarrow>
                 if \<not> os_IsNotExist err then (s, Inl OpenJsonFileError)
                 else (s, Inr 0)))"

subsection \<open>Options and the constructor\<close>

text \<open>A \<^verbatim>\<open>time.Duration\<close> is a count of nanoseconds.\<close>

definition Second :: int where
  "Second = 1000000000"

record Janitor =
  Interval :: int

record Persistent =
  Format :: Format
  Interval :: int
  Name :: string

record options =
  janitor :: "Janitor option"
  persistent :: "Persistent option"

type_synonym Option = "options \<Rightarrow> options"

definition WithPersistent :: "Persistent \<Rightarrow> Option" where
  "WithPersistent p opts =
     (let p1 = (if Format p = '''' then p\<lparr>Format := GobFormat\<rparr> else p);
          p2 = (if Persistent.Interval p1 = 0 then p1\<lparr>Persistent.Interval := 15 * Second\<rparr> else p1);
          p3 = (if Name p2 = '''' then p2\<lparr>Name := ''go-persista''\<rparr> else p2)
      in opts\<lparr>persistent := Some p3\<rparr>)"

definition WithJanitor :: "Janitor \<Rightarrow> Option" where
  "WithJanitor j opts =
     (let j1 = (if Janitor.Interval j = 0 then j\<lparr>Janitor.Interval := 15 * Second\<rparr> else j)
      in opts\<lparr>janitor := Some j1\<rparr>)"

text \<open>The lines that \<^verbatim>\<open>New\<close> writes to the log.\<close>

datatype log_line =
  LogJanitorEnabled
  | LogLoadError error
  | LogLoaded nat string
  | LogPersistentEnabled string Format int

text \<open>
  \<^verbatim>\<open>func New(ctx context.Context, opts ...Option) *Storage\<close>. The map starts as
  \<^verbatim>\<open>make(map[string]Object)\<close>; the result is the map of the storage \<^verbatim>\<open>New\<close>
  returns and the log lines it wrote. \<^verbatim>\<open>New\<close> has no error result; the
  two goroutines it starts (the janitor and the saver) run after it and are not part of
  this function.
\<close>

definition New :: "codec \<Rightarrow> codec \<Rightarrow> filesystem \<Rightarrow> Option list \<Rightarrow> storage \<times> log_line list" where
  "New json gob fs opts =
     (let options = fold (\<lambda>opt acc. opt acc) opts \<lparr>janitor = None, persistent = None\<rparr>;
          log1 = (if janitor options \<noteq> None then [LogJanitorEnabled] else [])
      in case persistent options of
           None \<Rightarrow> (make_map, log1)
         | Some p \<Rightarrow>
             (case load json gob fs make_map (Name p) of
                (st, Inl err) \<Rightarrow>
                  (st, log1 @ [LogLoadError err,
                     LogPersistentEnabled (Name p) (Format p) (Persistent.Interval p)])
              | (st, Inr cnt) \<Rightarrow>
                  (st, log1 @ [LogLoaded cnt (Name p),
                     LogPersistentEnabled (Name p) (Format p) (Persistent.Interval p)])))"

subsection \<open>Stand-ins for the libraries in the concrete examples\<close>

text \<open>
  A small encoder and decoder pair for the examples: the encoder writes the bytes stored
  under the key \<open>''k''\<close>, the decoder stores the content of the file under that key of
  the target map, allocating the map when the target is nil.
\<close>

definition sample_codec :: codec where
  "sample_codec =
     \<lparr>Encode = (\<lambda>m. (case entries m ''k'' of None \<Rightarrow> [] | Some obj \<Rightarrow> Data obj, False)),
      Decode = (\<lambda>content m.
        (Entries ((entries m)(''k'' \<mapsto> \<lparr>Data = content, Expires = None\<rparr>)), False))\<rparr>"

text \<open>
  The 27 bytes of the text \<^verbatim>\<open>{"a":{"Data":"AQ=="},"b":1}\<close>: well-formed JSON whose
  member \<^verbatim>\<open>"b"\<close> is a number where an \<^verbatim>\<open>Object\<close> is expected.
\<close>

definition mistyped_snapshot :: "byte list" where
  "mistyped_snapshot =
     [123, 34, 97, 34, 58, 123, 34, 68, 97, 116, 97, 34, 58, 34, 65, 81, 61, 61, 34, 125,
      44, 34, 98, 34, 58, 49, 125]"

text \<open>
  What \<^verbatim>\<open>json.NewDecoder(file).Decode(&m)\<close> does on that file: \<^verbatim>\<open>encoding/json\<close>
  stores the member \<^verbatim>\<open>"a"\<close> (the base64 text \<^verbatim>\<open>AQ==\<close> is the byte 1), records the type
  error at \<^verbatim>\<open>"b"\<close>, stores a zero \<^verbatim>\<open>Object\<close> under \<^verbatim>\<open>"b"\<close>, and returns the recorded
  \<^verbatim>\<open>UnmarshalTypeError\<close>. Any other content is treated as undecodable and leaves the target
  as it is; the encoder is not used.
\<close>

definition json_on_mistyped_snapshot :: codec where
  "json_on_mistyped_snapshot =
     \<lparr>Encode = (\<lambda>m. ([], True)),
      Decode = (\<lambda>content m.
        if content = mistyped_snapshot
        then (Entries ((entries m)(''a'' \<mapsto> \<lparr>Data = [1], Expires = None\<rparr>,
                ''b'' \<mapsto> \<lparr>Data = [], Expires = None\<rparr>)), True)
        else (m, True))\<rparr>"



text \<open>A decoder that rejects every file and leaves the target map as it is.\<close>

definition rejecting_codec :: codec where
  "rejecting_codec = \<lparr>Encode = (\<lambda>m. ([], True)), Decode = (\<lambda>content m. (m, True))\<rparr>"

subsection \<open>Get under the lock, step by step\<close>

text \<open>
  \<^verbatim>\<open>type Storage struct { storage map[string]Object; mu sync.RWMutex; ... }\<close>. A
  \<^verbatim>\<open>sync.RWMutex\<close> is held by any number of readers or by one writer.
\<close>

record RWMutex =
  readers :: nat
  writer :: bool

record Storage =
  storage :: storage
  mu :: RWMutex

text \<open>
  The places a goroutine can be at inside \<^verbatim>\<open>Get\<close>: before \<^verbatim>\<open>s.mu.RLock()\<close>, before
  the lookup \<^verbatim>\<open>obj, ok := s.storage[key]\<close>, before \<^verbatim>\<open>delete(s.storage, key)\<close>, before
  the deferred \<^verbatim>\<open>s.mu.RUnlock()\<close> with the result to return, and returned.
\<close>

datatype get_pc =
  AtRLock | AtLookup | AtDelete | AtRUnlock "byte list \<times> bool" | Returned "byte list \<times> bool"

text \<open>
  One atomic step of a goroutine running \<^verbatim>\<open>Get(key)\<close>, in the order of the statements of
  the source; \<open>None\<close> when the goroutine cannot move (\<^verbatim>\<open>RLock\<close> waits while a writer
  holds the lock; a returned call has no step).
\<close>

fun Get_step :: "string \<Rightarrow> instant \<Rightarrow> get_pc \<Rightarrow> Storage \<Rightarrow> (get_pc \<times> Storage) option" where
  "Get_step key now AtRLock st =
     (if writer (mu st) then None
      else Some (AtLookup, st\<lparr>mu := (mu st)\<lparr>readers := readers (mu st) + 1\<rparr>\<rparr>))"
| "Get_step key now AtLookup st =
     (case entries (storage st) key of
        None \<Rightarrow> Some (AtRUnlock ([], False), st)
      | Some obj \<Rightarrow>
          if expired obj now then Some (AtDelete, st)
          else Some (AtRUnlock (Data obj, True), st))"
| "Get_step key now AtDelete st =
     Some (AtRUnlock ([], False), st\<lparr>storage := map_delete (storage st) key\<rparr>)"
| "Get_step key now (AtRUnlock result) st =
     Some (Returned result, st\<lparr>mu := (mu st)\<lparr>readers := readers (mu st) - 1\<rparr>\<rparr>)"
| "Get_step key now (Returned result) st = None"

text \<open>
  Goroutines that all run \<^verbatim>\<open>Get(key)\<close> on one storage, interleaved by a schedule: the
  list of the goroutines' numbers in the order in which they take their steps.
\<close>

fun run_Gets ::
  "string \<Rightarrow> instant \<Rightarrow> nat list \<Rightarrow> get_pc list \<times> Storage \<Rightarrow> (get_pc list \<times> Storage) option" where
  "run_Gets key now [] cfg = Some cfg"
| "run_Gets key now (g # schedule) (pcs, st) =
     (if g < length pcs then
        (case Get_step key now (pcs ! g) st of
           None \<Rightarrow> None
         | Some (pc, st') \<Rightarrow> run_Gets key now schedule (pcs[g := pc], st'))
      else None)"

section \<open>Properties of Put and Get\<close>

lemma expired_imp_spec_expired: "expired obj now \<Longrightarrow> spec_expired obj now"
  by (simp add: expired_def spec_expired_def Before_def split: option.splits)

lemma spec_expired_iff:
  "spec_expired obj now \<longleftrightarrow> expired obj now \<or> Expires obj = Some now"
  by (auto simp: expired_def spec_expired_def Before_def split: option.splits)

lemma len_NilMap: "len NilMap = 0"
  by (simp add: len_def)

lemma len_Entries: "len (Entries m) = card (dom m)"
  by (simp add: len_def)

lemma entries_map_delete: "entries (map_delete s key) = (entries s)(key := None)"
  by (cases s) simp_all

lemma map_delete_absent: "entries s key = None \<Longrightarrow> map_delete s key = s"
  by (cases s) (simp_all add: fun_upd_idem)


text \<open>
  C1, as the specification words it, fails at the instant of expiry itself: an entry whose
  expiry equals \<open>now\<close> is expired in the specification's sense (\<open>expiresAt \<le> now\<close>), yet
  \<^verbatim>\<open>Get\<close> returns its value and keeps it in the map, because \<^verbatim>\<open>Before\<close> is strict.
\<close>

theorem Get_at_expiry_instant_counterexample:
  "spec_expired \<lparr>Data = [1], Expires = Some 5\<rparr> 5 \<and>
   snd (Get (Entries [''k'' \<mapsto> \<lparr>Data = [1], Expires = Some 5\<rparr>]) ''k'' 5) = ([1], True) \<and>
   entries (fst (Get (Entries [''k'' \<mapsto> \<lparr>Data = [1], Expires = Some 5\<rparr>]) ''k'' 5)) ''k''
     = Some \<lparr>Data = [1], Expires = Some 5\<rparr>"
  by (simp add: Get_def expired_def spec_expired_def Before_def)

text \<open>
  C1 (amended): for every key and every store state, \<^verbatim>\<open>Get\<close> returns not-found when the
  key is absent; returns the stored value, leaving the map as it is, when the key is
  present and has no expiry or an expiry that is not strictly before \<open>now\<close>; and when the
  expiry is strictly before \<open>now\<close> it deletes that entry and returns not-found, so the key
  is absent from the map afterwards.
\<close>

theorem Get_lazy_expiry:
  "(entries s key = None \<longrightarrow> Get s key now = (s, [], False)) \<and>
   (\<forall>obj. entries s key = Some obj \<and> Expires obj = None \<longrightarrow>
      Get s key now = (s, Data obj, True)) \<and>
   (\<forall>obj t. entries s key = Some obj \<and> Expires obj = Some t \<and> now \<le> t \<longrightarrow>
      Get s key now = (s, Data obj, True)) \<and>
   (\<forall>obj t. entries s key = Some obj \<and> Expires obj = Some t \<and> t < now \<longrightarrow>
      Get s key now = (map_delete s key, [], False) \<and>
      entries (fst (Get s key now)) key = None)"
  by (auto simp: Get_def expired_def Before_def entries_map_delete)

theorem Get_lazy_expiry_witness:
  "Get (Entries Map.empty) ''k'' 5 = (Entries Map.empty, [], False) \<and>
   Get NilMap ''k'' 5 = (NilMap, [], False) \<and>
   Get (Entries [''k'' \<mapsto> \<lparr>Data = [1], Expires = None\<rparr>]) ''k'' 5
     = (Entries [''k'' \<mapsto> \<lparr>Data = [1], Expires = None\<rparr>], [1], True) \<and>
   Get (Entries [''k'' \<mapsto> \<lparr>Data = [1], Expires = Some 5\<rparr>]) ''k'' 5
     = (Entries [''k'' \<mapsto> \<lparr>Data = [1], Expires = Some 5\<rparr>], [1], True) \<and>
   snd (Get (Entries [''k'' \<mapsto> \<lparr>Data = [1], Expires = Some 4\<rparr>]) ''k'' 5) = ([], False) \<and>
   entries (fst (Get (Entries [''k'' \<mapsto> \<lparr>Data = [1], Expires = Some 4\<rparr>]) ''k'' 5)) ''k'' = None"
  using Get_lazy_expiry [of "Entries Map.empty" "''k''" 5]
    Get_lazy_expiry [of NilMap "''k''" 5]
    Get_lazy_expiry [of "Entries [''k'' \<mapsto> \<lparr>Data = [1], Expires = None\<rparr>]" "''k''" 5]
    Get_lazy_expiry [of "Entries [''k'' \<mapsto> \<lparr>Data = [1], Expires = Some 5\<rparr>]" "''k''" 5]
    Get_lazy_expiry [of "Entries [''k'' \<mapsto> \<lparr>Data = [1], Expires = Some 4\<rparr>]" "''k''" 5]
  by simp




text \<open>
  C10: \<^verbatim>\<open>Get\<close> never touches an entry other than the one looked up; it leaves the whole
  map as it is when the key is absent or its entry has not expired; and whenever the map
  does change, the change is the removal of the looked-up entry, which was expired.
\<close>

theorem Get_frame:
  "(\<forall>k. k \<noteq> key \<longrightarrow> entries (fst (Get s key now)) k = entries s k) \<and>
   (entries s key = None \<longrightarrow> fst (Get s key now) = s) \<and>
   (\<forall>obj. entries s key = Some obj \<and> \<not> expired obj now \<longrightarrow> fst (Get s key now) = s) \<and>
   (fst (Get s key now) \<noteq> s \<longrightarrow>
      (\<exists>obj. entries s key = Some obj \<and> expired obj now \<and> spec_expired obj now \<and>
         fst (Get s key now) = map_delete s key))"
  by (auto simp: Get_def expired_imp_spec_expired entries_map_delete split: option.splits)

theorem Get_frame_witness:
  "entries (fst (Get (Entries [''k'' \<mapsto> \<lparr>Data = [1], Expires = Some 4\<rparr>,
       ''j'' \<mapsto> \<lparr>Data = [2], Expires = Some 4\<rparr>]) ''k'' 5)) ''j''
     = Some \<lparr>Data = [2], Expires = Some 4\<rparr> \<and>
   fst (Get (Entries [''j'' \<mapsto> \<lparr>Data = [2], Expires = Some 4\<rparr>]) ''k'' 5)
     = Entries [''j'' \<mapsto> \<lparr>Data = [2], Expires = Some 4\<rparr>] \<and>
   fst (Get (Entries [''k'' \<mapsto> \<lparr>Data = [1], Expires = Some 7\<rparr>]) ''k'' 5)
     = Entries [''k'' \<mapsto> \<lparr>Data = [1], Expires = Some 7\<rparr>] \<and>
   entries (fst (Get (Entries [''k'' \<mapsto> \<lparr>Data = [1], Expires = Some 4\<rparr>]) ''k'' 5)) ''k'' = None"
  using Get_frame [of "''k''" "Entries [''k'' \<mapsto> \<lparr>Data = [1], Expires = Some 4\<rparr>,
       ''j'' \<mapsto> \<lparr>Data = [2], Expires = Some 4\<rparr>]" 5]
    Get_frame [of "''k''" "Entries [''j'' \<mapsto> \<lparr>Data = [2], Expires = Some 4\<rparr>]" 5]
    Get_frame [of "''k''" "Entries [''k'' \<mapsto> \<lparr>Data = [1], Expires = Some 7\<rparr>]" 5]
    Get_frame [of "''k''" "Entries [''k'' \<mapsto> \<lparr>Data = [1], Expires = Some 4\<rparr>]" 5]
  by (simp add: Get_def expired_def Before_def)

section \<open>The janitor sweep\<close>

lemma janitor_tick_lookup:
  "entries (janitor_tick visits s) k =
     (case entries s k of
        None \<Rightarrow> None
      | Some obj \<Rightarrow> if \<exists>now. (k, now) \<in> set visits \<and> expired obj now then None else Some obj)"
proof (induction visits arbitrary: s k)
  case Nil
  show ?case by (simp split: option.split)
next
  case (Cons v rest)
  obtain key now where v: "v = (key, now)" by (cases v)
  show ?case
  proof (cases "entries s key")
    case None
    then show ?thesis
      unfolding v by (cases "k = key") (auto simp: Cons.IH entries_map_delete split: option.split)
  next
    case (Some obj)
    show ?thesis
    proof (cases "expired obj now")
      case True
      then show ?thesis
        unfolding v using Some by (cases "k = key") (auto simp: Cons.IH entries_map_delete split: option.split)
    next
      case False
      then show ?thesis
        unfolding v using Some by (cases "k = key") (auto simp: Cons.IH entries_map_delete split: option.split)
    qed
  qed
qed

lemma range_of_reading:
  assumes "range_of visits s" and "entries s k = Some obj"
  shows "\<exists>now. (k, now) \<in> set visits \<and> (\<forall>now'. (k, now') \<in> set visits \<longrightarrow> now' = now)"
proof -
  from assms have "k \<in> fst ` set visits"
    by (auto simp: range_of_def)
  then obtain now where in_visits: "(k, now) \<in> set visits"
    by auto
  from assms(1) have "distinct (map fst visits)"
    by (simp add: range_of_def)
  then have "\<forall>now'. (k, now') \<in> set visits \<longrightarrow> now' = now"
    using in_visits by (meson eq_key_imp_eq_value)
  with in_visits show ?thesis
    by blast
qed

text \<open>
  C4, as the specification words it, fails at the instant of expiry itself: a sweep that
  reads the clock at 5 keeps an entry whose expiry is 5, although that entry is expired in
  the specification's sense (\<open>expiresAt \<le> now\<close>).
\<close>

theorem janitor_tick_at_expiry_instant_counterexample:
  "range_of [(''k'', 5)] (Entries [''k'' \<mapsto> \<lparr>Data = [1], Expires = Some 5\<rparr>]) \<and>
   spec_expired \<lparr>Data = [1], Expires = Some 5\<rparr> 5 \<and>
   entries (janitor_tick [(''k'', 5)] (Entries [''k'' \<mapsto> \<lparr>Data = [1], Expires = Some 5\<rparr>])) ''k''
     = Some \<lparr>Data = [1], Expires = Some 5\<rparr>"
  by (simp add: range_of_def expired_def spec_expired_def Before_def)

text \<open>
  C4 (amended): one sweep goes once over the whole map and removes every entry whose expiry
  is present and strictly before the clock reading taken when the loop reaches that entry;
  every other entry (no expiry, or an expiry not before that reading) is left as it was,
  and no key appears that was not there.
\<close>

theorem janitor_tick_removes_expired:
  assumes "range_of visits s"
  shows "(entries s k = None \<longrightarrow> entries (janitor_tick visits s) k = None) \<and>
    (\<forall>obj. entries s k = Some obj \<longrightarrow>
      (\<exists>now. (k, now) \<in> set visits \<and>
         entries (janitor_tick visits s) k
           = (if \<exists>t. Expires obj = Some t \<and> t < now then None else Some obj)))"
proof (intro conjI allI impI)
  assume "entries s k = None"
  then show "entries (janitor_tick visits s) k = None"
    by (simp add: janitor_tick_lookup)
next
  fix obj
  assume present: "entries s k = Some obj"
  from range_of_reading [OF assms present] obtain now
    where in_visits: "(k, now) \<in> set visits"
      and only: "\<forall>now'. (k, now') \<in> set visits \<longrightarrow> now' = now"
    by blast
  have "(\<exists>now'. (k, now') \<in> set visits \<and> expired obj now') \<longleftrightarrow> expired obj now"
    using in_visits only by blast
  moreover have "expired obj now \<longleftrightarrow> (\<exists>t. Expires obj = Some t \<and> t < now)"
    by (simp add: expired_def Before_def split: option.split)
  ultimately have "entries (janitor_tick visits s) k
      = (if \<exists>t. Expires obj = Some t \<and> t < now then None else Some obj)"
    using present by (simp add: janitor_tick_lookup)
  with in_visits
  show "\<exists>now. (k, now) \<in> set visits \<and>
      entries (janitor_tick visits s) k
        = (if \<exists>t. Expires obj = Some t \<and> t < now then None else Some obj)"
    by blast
qed

theorem janitor_tick_removes_expired_witness:
  "range_of [(''a'', 5), (''b'', 5), (''c'', 5)]
     (Entries [''a'' \<mapsto> \<lparr>Data = [1], Expires = Some 4\<rparr>,
      ''b'' \<mapsto> \<lparr>Data = [2], Expires = Some 6\<rparr>,
      ''c'' \<mapsto> \<lparr>Data = [3], Expires = None\<rparr>]) \<and>
   entries (janitor_tick [(''a'', 5), (''b'', 5), (''c'', 5)]
     (Entries [''a'' \<mapsto> \<lparr>Data = [1], Expires = Some 4\<rparr>,
      ''b'' \<mapsto> \<lparr>Data = [2], Expires = Some 6\<rparr>,
      ''c'' \<mapsto> \<lparr>Data = [3], Expires = None\<rparr>])) ''a'' = None \<and>
   entries (janitor_tick [(''a'', 5), (''b'', 5), (''c'', 5)]
     (Entries [''a'' \<mapsto> \<lparr>Data = [1], Expires = Some 4\<rparr>,
      ''b'' \<mapsto> \<lparr>Data = [2], Expires = Some 6\<rparr>,
      ''c'' \<mapsto> \<lparr>Data = [3], Expires = None\<rparr>])) ''b'' = Some \<lparr>Data = [2], Expires = Some 6\<rparr> \<and>
   entries (janitor_tick [(''a'', 5), (''b'', 5), (''c'', 5)]
     (Entries [''a'' \<mapsto> \<lparr>Data = [1], Expires = Some 4\<rparr>,
      ''b'' \<mapsto> \<lparr>Data = [2], Expires = Some 6\<rparr>,
      ''c'' \<mapsto> \<lparr>Data = [3], Expires = None\<rparr>])) ''d'' = None"
proof -
  let ?s = "Entries [''a'' \<mapsto> \<lparr>Data = [1], Expires = Some 4\<rparr>,
      ''b'' \<mapsto> \<lparr>Data = [2], Expires = Some 6\<rparr>,
      ''c'' \<mapsto> \<lparr>Data = [3::byte], Expires = None\<rparr>]"
  let ?v = "[(''a'', 5), (''b'', 5), (''c'', 5::instant)]"
  have r: "range_of ?v ?s"
    by (auto simp: range_of_def)
  show ?thesis
    using r janitor_tick_removes_expired [OF r, of "''a''"]
      janitor_tick_removes_expired [OF r, of "''b''"]
      janitor_tick_removes_expired [OF r, of "''d''"]
    by (simp add: expired_def Before_def)
qed

section \<open>Snapshots: save\<close>

lemma save_create_failed:
  "name @ ''.'' @ format \<in> uncreatable fs \<Longrightarrow>
     save json gob fs s name format = (fs, Inl CreateFileError)"
  by (simp add: save_def os_Create_def)

lemma save_supported:
  assumes "name @ ''.'' @ format \<notin> uncreatable fs"
    and "format = JSONFormat \<and> c = json \<or> format = GobFormat \<and> c = gob"
  shows "save json gob fs s name format =
    (fs\<lparr>files := (files fs)(name @ ''.'' @ format \<mapsto> fst (Encode c s))\<rparr>,
     if snd (Encode c s)
     then Inl (if format = JSONFormat then JsonEncodeError else GobEncodeError)
     else Inr (len s))"
  using assms
  by (auto simp: save_def os_Create_def write_file_def JSONFormat_def GobFormat_def
      split: prod.splits)

lemma save_other_format:
  assumes "name @ ''.'' @ format \<notin> uncreatable fs"
    and "format \<noteq> JSONFormat" and "format \<noteq> GobFormat"
  shows "save json gob fs s name format =
    (fs\<lparr>files := (files fs)(name @ ''.'' @ format \<mapsto> [])\<rparr>, Inr (len s))"
  using assms by (simp add: save_def os_Create_def)

text \<open>
  C5: when the file can be created and the encoder of the chosen format (json or gob)
  reports no error, \<^verbatim>\<open>save\<close> leaves in \<^verbatim>\<open>name.format\<close> exactly what the encoder
  writes for the whole map \<open>s\<close> (no entry is filtered out before encoding, expired or
  not), whatever that file held before or whether it existed; it touches no other file;
  and it returns the number of entries of the map.
\<close>

theorem save_writes_whole_map:
  assumes "name @ ''.'' @ format \<notin> uncreatable fs"
    and "format = JSONFormat \<and> c = json \<or> format = GobFormat \<and> c = gob"
    and "\<not> snd (Encode c s)"
  shows "snd (save json gob fs s name format) = Inr (len s) \<and>
    files (fst (save json gob fs s name format)) (name @ ''.'' @ format)
      = Some (fst (Encode c s)) \<and>
    (\<forall>path. path \<noteq> name @ ''.'' @ format \<longrightarrow>
       files (fst (save json gob fs s name format)) path = files fs path)"
  using assms(3) by (simp add: save_supported [OF assms(1,2)])

theorem save_writes_whole_map_witness:
  "snd (save sample_codec sample_codec
     \<lparr>files = [''n.gob'' \<mapsto> [9], ''m.gob'' \<mapsto> [8]], unreadable = {}, uncreatable = {}\<rparr>
     (Entries [''k'' \<mapsto> \<lparr>Data = [1, 2], Expires = Some 4\<rparr>,
        ''j'' \<mapsto> \<lparr>Data = [3], Expires = None\<rparr>])
     ''n'' ''gob'') = Inr 2 \<and>
   files (fst (save sample_codec sample_codec
     \<lparr>files = [''n.gob'' \<mapsto> [9], ''m.gob'' \<mapsto> [8]], unreadable = {}, uncreatable = {}\<rparr>
     (Entries [''k'' \<mapsto> \<lparr>Data = [1, 2], Expires = Some 4\<rparr>,
        ''j'' \<mapsto> \<lparr>Data = [3], Expires = None\<rparr>])
     ''n'' ''gob'')) ''n.gob'' = Some [1, 2] \<and>
   files (fst (save sample_codec sample_codec
     \<lparr>files = [''n.gob'' \<mapsto> [9], ''m.gob'' \<mapsto> [8]], unreadable = {}, uncreatable = {}\<rparr>
     (Entries [''k'' \<mapsto> \<lparr>Data = [1, 2], Expires = Some 4\<rparr>,
        ''j'' \<mapsto> \<lparr>Data = [3], Expires = None\<rparr>])
     ''n'' ''gob'')) ''m.gob'' = Some [8]"
proof -
  let ?fs = "\<lparr>files = [''n.gob'' \<mapsto> [9], ''m.gob'' \<mapsto> [8::byte]], unreadable = {}, uncreatable = {}\<rparr>"
  let ?s = "Entries [''k'' \<mapsto> \<lparr>Data = [1, 2], Expires = Some 4\<rparr>,
      ''j'' \<mapsto> \<lparr>Data = [3::byte], Expires = None\<rparr>]"
  have a: "''n'' @ ''.'' @ ''gob'' \<notin> uncreatable ?fs" by simp
  have b: "''gob'' = JSONFormat \<and> sample_codec = sample_codec
      \<or> ''gob'' = GobFormat \<and> sample_codec = sample_codec"
    by (simp add: GobFormat_def)
  have c: "\<not> snd (Encode sample_codec ?s)" by (simp add: sample_codec_def)
  have d: "len ?s = 2" by (simp add: len_def)
  show ?thesis
    using save_writes_whole_map [OF a b c] d
    by (simp add: sample_codec_def)
qed

text \<open>
  C9: for a format that is neither \<open>''json''\<close> nor \<open>''gob''\<close>, once the file can be
  created, \<^verbatim>\<open>save\<close> leaves \<^verbatim>\<open>name.format\<close> empty (created or truncated, nothing
  encoded into it), touches no encoder, and returns the full size of the map with no
  error; and \<^verbatim>\<open>WithPersistent\<close> keeps every non-empty format as given, replacing only the
  empty string by gob.
\<close>

theorem save_unsupported_format:
  "(format \<noteq> JSONFormat \<and> format \<noteq> GobFormat \<and> name @ ''.'' @ format \<notin> uncreatable fs \<longrightarrow>
      save json gob fs s name format =
        (fs\<lparr>files := (files fs)(name @ ''.'' @ format \<mapsto> [])\<rparr>, Inr (len s))) \<and>
   (\<exists>q. persistent (WithPersistent p opts) = Some q \<and>
      Format q = (if Format p = '''' then GobFormat else Format p))"
  by (simp add: save_other_format WithPersistent_def Let_def)

theorem save_unsupported_format_witness:
  "save sample_codec sample_codec
     \<lparr>files = [''n.xml'' \<mapsto> [9]], unreadable = {}, uncreatable = {}\<rparr>
     (Entries [''k'' \<mapsto> \<lparr>Data = [1, 2], Expires = None\<rparr>]) ''n'' ''xml''
     = (\<lparr>files = [''n.xml'' \<mapsto> []], unreadable = {}, uncreatable = {}\<rparr>, Inr 1) \<and>
   (\<exists>q. persistent (WithPersistent \<lparr>Format = ''xml'', Interval = 0, Name = ''''\<rparr>
            \<lparr>janitor = None, persistent = None\<rparr>) = Some q \<and> Format q = ''xml'')"
  using save_unsupported_format [of "''xml''" "''n''"
      "\<lparr>files = [''n.xml'' \<mapsto> [9]], unreadable = {}, uncreatable = {}\<rparr>"
      sample_codec sample_codec "Entries [''k'' \<mapsto> \<lparr>Data = [1, 2], Expires = None\<rparr>]"
      "\<lparr>Format = ''xml'', Interval = 0, Name = ''''\<rparr>" "\<lparr>janitor = None, persistent = None\<rparr>"]
  by (simp add: JSONFormat_def GobFormat_def len_def)

section \<open>Snapshots: load\<close>

lemma load_gob_opened:
  "os_Open fs (name @ ''.'' @ GobFormat) = Inr file \<Longrightarrow>
     load json gob fs s name = load_decode json gob GobFormat file s"
  by (simp add: load_def)

lemma load_gob_open_error:
  "os_Open fs (name @ ''.'' @ GobFormat) = Inl ErrOther \<Longrightarrow>
     load json gob fs s name = (s, Inl OpenGobFileError)"
  by (simp add: load_def os_IsNotExist_def)

lemma load_json_opened:
  "os_Open fs (name @ ''.'' @ GobFormat) = Inl ErrNotExist \<Longrightarrow>
   os_Open fs (name @ ''.'' @ JSONFormat) = Inr file \<Longrightarrow>
     load json gob fs s name = load_decode json gob JSONFormat file s"
  by (simp add: load_def os_IsNotExist_def)

lemma load_json_open_error:
  "os_Open fs (name @ ''.'' @ GobFormat) = Inl ErrNotExist \<Longrightarrow>
   os_Open fs (name @ ''.'' @ JSONFormat) = Inl ErrOther \<Longrightarrow>
     load json gob fs s name = (s, Inl OpenJsonFileError)"
  by (simp add: load_def os_IsNotExist_def)

lemma load_nothing_to_load:
  "os_Open fs (name @ ''.'' @ GobFormat) = Inl ErrNotExist \<Longrightarrow>
   os_Open fs (name @ ''.'' @ JSONFormat) = Inl ErrNotExist \<Longrightarrow>
     load json gob fs s name = (s, Inr 0)"
  by (simp add: load_def os_IsNotExist_def)

lemma load_decode_gob:
  "load_decode json gob GobFormat file s =
     (fst (Decode gob file s),
      if snd (Decode gob file s) then Inl GobDecodeError
      else Inr (len (fst (Decode gob file s))))"
  by (simp add: load_decode_def GobFormat_def JSONFormat_def split: prod.splits)

lemma load_decode_json:
  "load_decode json gob JSONFormat file s =
     (fst (Decode json file s),
      if snd (Decode json file s) then Inl JsonDecodeError
      else Inr (len (fst (Decode json file s))))"
  by (simp add: load_decode_def split: prod.splits)

lemma New_persistent:
  assumes "persistent (fold (\<lambda>opt acc. opt acc) opts \<lparr>janitor = None, persistent = None\<rparr>) = Some p"
  shows "fst (New json gob fs opts) = fst (load json gob fs make_map (Name p))"
    and "snd (load json gob fs make_map (Name p)) = Inl err \<Longrightarrow>
      LogLoadError err \<in> set (snd (New json gob fs opts))"
    and "snd (load json gob fs make_map (Name p)) = Inr cnt \<Longrightarrow>
      LogLoaded cnt (Name p) \<in> set (snd (New json gob fs opts))"
  using assms by (auto simp: New_def Let_def split: prod.splits sum.splits)

text \<open>
  C6: \<^verbatim>\<open>load\<close> opens \<^verbatim>\<open>name.gob\<close> first. When that file opens, it alone is decoded, the
  json file playing no part; when opening it fails for a reason other than not-exist, that
  is the error returned. Only when it does not exist is \<^verbatim>\<open>name.json\<close> opened: it is
  decoded when it opens, an error other than not-exist is returned, and when it does not
  exist either, \<^verbatim>\<open>load\<close> returns the count 0 with no error and leaves the map as it
  was, so that the storage \<^verbatim>\<open>New\<close> returns is empty. A file that was opened and whose
  decoder fails yields the decode error.
\<close>

theorem load_order_and_errors:
  "(\<forall>file. os_Open fs (name @ ''.'' @ GobFormat) = Inr file \<longrightarrow>
      load json gob fs s name = load_decode json gob GobFormat file s \<and>
      (snd (Decode gob file s) \<longrightarrow> snd (load json gob fs s name) = Inl GobDecodeError)) \<and>
   (os_Open fs (name @ ''.'' @ GobFormat) = Inl ErrOther \<longrightarrow>
      load json gob fs s name = (s, Inl OpenGobFileError)) \<and>
   (os_Open fs (name @ ''.'' @ GobFormat) = Inl ErrNotExist \<longrightarrow>
      (\<forall>file. os_Open fs (name @ ''.'' @ JSONFormat) = Inr file \<longrightarrow>
         load json gob fs s name = load_decode json gob JSONFormat file s \<and>
         (snd (Decode json file s) \<longrightarrow> snd (load json gob fs s name) = Inl JsonDecodeError)) \<and>
      (os_Open fs (name @ ''.'' @ JSONFormat) = Inl ErrOther \<longrightarrow>
         load json gob fs s name = (s, Inl OpenJsonFileError)) \<and>
      (os_Open fs (name @ ''.'' @ JSONFormat) = Inl ErrNotExist \<longrightarrow>
         load json gob fs s name = (s, Inr 0) \<and>
         (\<forall>p. persistent (fold (\<lambda>opt acc. opt acc) opts \<lparr>janitor = None, persistent = None\<rparr>)
                = Some p \<and> Name p = name \<longrightarrow>
              fst (New json gob fs opts) = make_map \<and>
              LogLoaded 0 name \<in> set (snd (New json gob fs opts)))))"
proof -
  have "fst (New json gob fs opts) = make_map \<and>
      LogLoaded 0 name \<in> set (snd (New json gob fs opts))"
    if "os_Open fs (name @ ''.'' @ GobFormat) = Inl ErrNotExist"
      and "os_Open fs (name @ ''.'' @ JSONFormat) = Inl ErrNotExist"
      and "persistent (fold (\<lambda>opt acc. opt acc) opts \<lparr>janitor = None, persistent = None\<rparr>) = Some p"
      and "Name p = name" for p
    using New_persistent(1,3) [OF that(3)] load_nothing_to_load [OF that(1,2)]
    by (simp add: that(4))
  then show ?thesis
    by (simp add: load_gob_opened load_gob_open_error load_json_opened load_json_open_error
        load_nothing_to_load load_decode_gob load_decode_json)
qed

theorem load_order_and_errors_witness:
  "load sample_codec rejecting_codec
     \<lparr>files = [''n.gob'' \<mapsto> [7], ''n.json'' \<mapsto> [8]], unreadable = {}, uncreatable = {}\<rparr>
     make_map ''n'' = (make_map, Inl GobDecodeError) \<and>
   load sample_codec sample_codec
     \<lparr>files = [''n.gob'' \<mapsto> [7], ''n.json'' \<mapsto> [8]], unreadable = {''n.gob''}, uncreatable = {}\<rparr>
     make_map ''n'' = (make_map, Inl OpenGobFileError) \<and>
   load sample_codec sample_codec
     \<lparr>files = [''n.json'' \<mapsto> [8]], unreadable = {}, uncreatable = {}\<rparr>
     make_map ''n'' = (Entries [''k'' \<mapsto> \<lparr>Data = [8], Expires = None\<rparr>], Inr 1) \<and>
   load rejecting_codec sample_codec
     \<lparr>files = [''n.json'' \<mapsto> [8]], unreadable = {}, uncreatable = {}\<rparr>
     make_map ''n'' = (make_map, Inl JsonDecodeError) \<and>
   load sample_codec sample_codec
     \<lparr>files = [''n.json'' \<mapsto> [8]], unreadable = {''n.json''}, uncreatable = {}\<rparr>
     make_map ''n'' = (make_map, Inl OpenJsonFileError) \<and>
   load sample_codec sample_codec
     \<lparr>files = Map.empty, unreadable = {}, uncreatable = {}\<rparr>
     make_map ''n'' = (make_map, Inr 0) \<and>
   fst (New sample_codec sample_codec \<lparr>files = Map.empty, unreadable = {}, uncreatable = {}\<rparr>
     [WithPersistent \<lparr>Format = '''', Interval = 0, Name = ''n''\<rparr>]) = make_map"
  using
    load_order_and_errors [of
      "\<lparr>files = [''n.gob'' \<mapsto> [7], ''n.json'' \<mapsto> [8]], unreadable = {}, uncreatable = {}\<rparr>"
      "''n''" sample_codec rejecting_codec make_map]
    load_order_and_errors [of
      "\<lparr>files = [''n.gob'' \<mapsto> [7], ''n.json'' \<mapsto> [8]], unreadable = {''n.gob''}, uncreatable = {}\<rparr>"
      "''n''" sample_codec sample_codec make_map]
    load_order_and_errors [of
      "\<lparr>files = [''n.json'' \<mapsto> [8]], unreadable = {}, uncreatable = {}\<rparr>"
      "''n''" sample_codec sample_codec make_map]
    load_order_and_errors [of
      "\<lparr>files = [''n.json'' \<mapsto> [8]], unreadable = {}, uncreatable = {}\<rparr>"
      "''n''" rejecting_codec sample_codec make_map]
    load_order_and_errors [of
      "\<lparr>files = [''n.json'' \<mapsto> [8]], unreadable = {''n.json''}, uncreatable = {}\<rparr>"
      "''n''" sample_codec sample_codec make_map]
    load_order_and_errors [of
      "\<lparr>files = Map.empty, unreadable = {}, uncreatable = {}\<rparr>"
      "''n''" sample_codec sample_codec make_map
      "[WithPersistent \<lparr>Format = '''', Interval = 0, Name = ''n''\<rparr>]"]
  by (simp add: os_Open_def GobFormat_def JSONFormat_def load_decode_def
      sample_codec_def rejecting_codec_def WithPersistent_def make_map_def len_def)

section \<open>The constructor after a failed load\<close>

text \<open>
  C7, as the specification words it, fails on a snapshot that is well-formed JSON with a
  member of the wrong type: the decoder has stored entries in the map by the time it
  reports its error, \<^verbatim>\<open>load\<close> returns that error, and the storage that \<^verbatim>\<open>New\<close>
  returns after logging it is not empty.
\<close>

theorem New_keeps_partial_decode_counterexample:
  "snd (load json_on_mistyped_snapshot rejecting_codec
     \<lparr>files = [''go-persista.json'' \<mapsto> mistyped_snapshot], unreadable = {}, uncreatable = {}\<rparr>
     make_map ''go-persista'') = Inl JsonDecodeError \<and>
   LogLoadError JsonDecodeError \<in> set (snd (New json_on_mistyped_snapshot rejecting_codec
     \<lparr>files = [''go-persista.json'' \<mapsto> mistyped_snapshot], unreadable = {}, uncreatable = {}\<rparr>
     [WithPersistent \<lparr>Format = JSONFormat, Interval = 15 * Second, Name = ''''\<rparr>])) \<and>
   entries (fst (New json_on_mistyped_snapshot rejecting_codec
     \<lparr>files = [''go-persista.json'' \<mapsto> mistyped_snapshot], unreadable = {}, uncreatable = {}\<rparr>
     [WithPersistent \<lparr>Format = JSONFormat, Interval = 15 * Second, Name = ''''\<rparr>])) ''a''
     = Some \<lparr>Data = [1], Expires = None\<rparr>"
  by (simp add: New_def load_def load_decode_def os_Open_def os_IsNotExist_def
      WithPersistent_def JSONFormat_def GobFormat_def Second_def
      json_on_mistyped_snapshot_def make_map_def)

text \<open>
  C7 (amended): when the snapshot file that \<^verbatim>\<open>load\<close> opens (the gob file, or the json
  file when the gob file does not exist) cannot be decoded, \<^verbatim>\<open>load\<close> returns the decode
  error to its caller; \<^verbatim>\<open>New\<close> logs it and still returns a storage; and the map of that
  storage is the initially empty map as the failing decoder left it: neither \<^verbatim>\<open>load\<close>
  nor \<^verbatim>\<open>New\<close> resets it, so it is empty exactly when the decoder stored nothing before
  it failed.
\<close>

theorem New_after_failed_decode:
  assumes "persistent (fold (\<lambda>opt acc. opt acc) opts \<lparr>janitor = None, persistent = None\<rparr>) = Some p"
    and "os_Open fs (Name p @ ''.'' @ GobFormat) = Inr file \<and> c = gob \<and> err = GobDecodeError
      \<or> os_Open fs (Name p @ ''.'' @ GobFormat) = Inl ErrNotExist \<and>
        os_Open fs (Name p @ ''.'' @ JSONFormat) = Inr file \<and> c = json \<and> err = JsonDecodeError"
    and "snd (Decode c file make_map)"
  shows "load json gob fs make_map (Name p) = (fst (Decode c file make_map), Inl err) \<and>
    LogLoadError err \<in> set (snd (New json gob fs opts)) \<and>
    fst (New json gob fs opts) = fst (Decode c file make_map) \<and>
    (fst (New json gob fs opts) = make_map \<longleftrightarrow> fst (Decode c file make_map) = make_map)"
proof -
  have l: "load json gob fs make_map (Name p) = (fst (Decode c file make_map), Inl err)"
    using assms(2,3)
    by (auto simp: load_gob_opened load_json_opened load_decode_gob load_decode_json)
  show ?thesis
    using New_persistent(1,2) [OF assms(1)] l by simp
qed

theorem New_after_failed_decode_witness:
  "load rejecting_codec rejecting_codec
     \<lparr>files = [''n.gob'' \<mapsto> [7]], unreadable = {}, uncreatable = {}\<rparr> make_map ''n''
     = (make_map, Inl GobDecodeError) \<and>
   LogLoadError GobDecodeError \<in> set (snd (New rejecting_codec rejecting_codec
     \<lparr>files = [''n.gob'' \<mapsto> [7]], unreadable = {}, uncreatable = {}\<rparr>
     [WithPersistent \<lparr>Format = GobFormat, Interval = 0, Name = ''n''\<rparr>])) \<and>
   fst (New rejecting_codec rejecting_codec
     \<lparr>files = [''n.gob'' \<mapsto> [7]], unreadable = {}, uncreatable = {}\<rparr>
     [WithPersistent \<lparr>Format = GobFormat, Interval = 0, Name = ''n''\<rparr>]) = make_map \<and>
   fst (New json_on_mistyped_snapshot rejecting_codec
     \<lparr>files = [''n.json'' \<mapsto> mistyped_snapshot], unreadable = {}, uncreatable = {}\<rparr>
     [WithPersistent \<lparr>Format = GobFormat, Interval = 0, Name = ''n''\<rparr>])
     = Entries [''a'' \<mapsto> \<lparr>Data = [1], Expires = None\<rparr>, ''b'' \<mapsto> \<lparr>Data = [], Expires = None\<rparr>]"
proof -
  let ?opts = "[WithPersistent \<lparr>Format = GobFormat, Interval = 0, Name = ''n''\<rparr>]"
  let ?p = "\<lparr>Format = GobFormat, Interval = 15 * Second, Name = ''n''\<rparr>"
  let ?fs1 = "\<lparr>files = [''n.gob'' \<mapsto> [7::byte]], unreadable = {}, uncreatable = {}\<rparr>"
  let ?fs2 = "\<lparr>files = [''n.json'' \<mapsto> mistyped_snapshot], unreadable = {}, uncreatable = {}\<rparr>"
  have p: "persistent (fold (\<lambda>opt acc. opt acc) ?opts \<lparr>janitor = None, persistent = None\<rparr>) = Some ?p"
    by (simp add: WithPersistent_def)
  have o1: "os_Open ?fs1 (Name ?p @ ''.'' @ GobFormat) = Inr [7] \<and>
      rejecting_codec = rejecting_codec \<and> GobDecodeError = GobDecodeError
    \<or> os_Open ?fs1 (Name ?p @ ''.'' @ GobFormat) = Inl ErrNotExist \<and>
      os_Open ?fs1 (Name ?p @ ''.'' @ JSONFormat) = Inr [7] \<and>
      rejecting_codec = rejecting_codec \<and> GobDecodeError = JsonDecodeError"
    by (simp add: os_Open_def GobFormat_def)
  have d1: "snd (Decode rejecting_codec [7] make_map)"
    by (simp add: rejecting_codec_def)
  have o2: "os_Open ?fs2 (Name ?p @ ''.'' @ GobFormat) = Inr mistyped_snapshot \<and>
      json_on_mistyped_snapshot = rejecting_codec \<and> JsonDecodeError = GobDecodeError
    \<or> os_Open ?fs2 (Name ?p @ ''.'' @ GobFormat) = Inl ErrNotExist \<and>
      os_Open ?fs2 (Name ?p @ ''.'' @ JSONFormat) = Inr mistyped_snapshot \<and>
      json_on_mistyped_snapshot = json_on_mistyped_snapshot \<and> JsonDecodeError = JsonDecodeError"
    by (simp add: os_Open_def GobFormat_def JSONFormat_def)
  have d2: "snd (Decode json_on_mistyped_snapshot mistyped_snapshot make_map)"
    by (simp add: json_on_mistyped_snapshot_def)
  show ?thesis
    using New_after_failed_decode [OF p o1 d1] New_after_failed_decode [OF p o2 d2]
    by (simp add: rejecting_codec_def json_on_mistyped_snapshot_def make_map_def)
qed

section \<open>Save followed by load\<close>

text \<open>
  What the package itself contributes to a snapshot's way to disk and back: after a
  successful \<^verbatim>\<open>save\<close> in the gob format, or in the json format when no gob file of that
  name exists, \<^verbatim>\<open>load\<close> hands the decoder of that format exactly the bytes its encoder
  wrote for the whole map. Whether the decoder then rebuilds the same entries is a property
  of the encoding libraries and is not settled here.
\<close>

lemma os_Open_after_save:
  assumes "name @ ''.'' @ format \<notin> uncreatable fs"
    and "format = JSONFormat \<and> c = json \<or> format = GobFormat \<and> c = gob"
  shows "os_Open (fst (save json gob fs s name format)) path =
    (if path \<in> unreadable fs then Inl ErrOther
     else if path = name @ ''.'' @ format then Inr (fst (Encode c s))
     else os_Open fs path)"
  by (simp add: save_supported [OF assms] os_Open_def)

lemma load_after_save:
  assumes "format = JSONFormat \<and> c = json \<or> format = GobFormat \<and> c = gob"
    and "name @ ''.'' @ format \<notin> uncreatable fs"
    and "name @ ''.'' @ format \<notin> unreadable fs"
    and "format = JSONFormat \<longrightarrow> os_Open fs (name @ ''.'' @ GobFormat) = Inl ErrNotExist"
  shows "load json gob (fst (save json gob fs s name format)) target name
    = load_decode json gob format (fst (Encode c s)) target"
proof -
  let ?fs' = "fst (save json gob fs s name format)"
  have own: "os_Open ?fs' (name @ ''.'' @ format) = Inr (fst (Encode c s))"
    using assms(3) by (simp add: os_Open_after_save [OF assms(2,1)])
  from assms(1) show ?thesis
  proof
    assume j: "format = JSONFormat \<and> c = json"
    have other: "name @ ''.'' @ GobFormat \<noteq> name @ ''.'' @ format"
      using j by (simp add: JSONFormat_def GobFormat_def)
    have before: "os_Open fs (name @ ''.'' @ GobFormat) = Inl ErrNotExist"
      using assms(4) j by simp
    then have "name @ ''.'' @ GobFormat \<notin> unreadable fs"
      by (auto simp: os_Open_def split: if_splits)
    with other before have "os_Open ?fs' (name @ ''.'' @ GobFormat) = Inl ErrNotExist"
      by (simp add: os_Open_after_save [OF assms(2,1)])
    then show ?thesis
      using own j by (simp add: load_json_opened)
  next
    assume g: "format = GobFormat \<and> c = gob"
    then show ?thesis
      using own by (simp add: load_gob_opened)
  qed
qed

text \<open>
  With a gob snapshot of the same name already on disk, a \<^verbatim>\<open>save\<close> in the json format
  followed by \<^verbatim>\<open>load\<close> restores the older gob snapshot, not the map just saved.
\<close>

lemma load_after_json_save_prefers_gob:
  "snd (save sample_codec sample_codec
     \<lparr>files = [''n.gob'' \<mapsto> [9]], unreadable = {}, uncreatable = {}\<rparr>
     (Entries [''k'' \<mapsto> \<lparr>Data = [1, 2], Expires = None\<rparr>]) ''n'' JSONFormat) = Inr 1 \<and>
   load sample_codec sample_codec
     (fst (save sample_codec sample_codec
        \<lparr>files = [''n.gob'' \<mapsto> [9]], unreadable = {}, uncreatable = {}\<rparr>
        (Entries [''k'' \<mapsto> \<lparr>Data = [1, 2], Expires = None\<rparr>]) ''n'' JSONFormat))
     make_map ''n''
     = (Entries [''k'' \<mapsto> \<lparr>Data = [9], Expires = None\<rparr>], Inr 1)"
  by (simp add: save_def load_def load_decode_def os_Create_def os_Open_def write_file_def
      JSONFormat_def GobFormat_def sample_codec_def make_map_def len_def)

section \<open>The lock held by Get when it deletes\<close>

text \<open>
  Run alone from an unlocked storage, the steps of \<^verbatim>\<open>Get\<close> compute what the function
  \<open>Get\<close> above computes, and release the lock.
\<close>

lemma Get_steps_alone:
  assumes "\<not> writer (mu st)"
  shows "\<exists>n. run_Gets key now (replicate n 0) ([AtRLock], st)
    = Some ([Returned (snd (Get (storage st) key now))],
        st\<lparr>storage := fst (Get (storage st) key now)\<rparr>)"
proof (cases "entries (storage st) key")
  case None
  with assms have "run_Gets key now (replicate 3 0) ([AtRLock], st)
    = Some ([Returned (snd (Get (storage st) key now))],
        st\<lparr>storage := fst (Get (storage st) key now)\<rparr>)"
    by (simp add: numeral_3_eq_3 Get_def)
  then show ?thesis ..
next
  case (Some obj)
  show ?thesis
  proof (cases "expired obj now")
    case True
    with assms Some have "run_Gets key now (replicate 4 0) ([AtRLock], st)
      = Some ([Returned (snd (Get (storage st) key now))],
          st\<lparr>storage := fst (Get (storage st) key now)\<rparr>)"
      by (simp add: eval_nat_numeral Get_def)
    then show ?thesis ..
  next
    case False
    with assms Some have "run_Gets key now (replicate 3 0) ([AtRLock], st)
      = Some ([Returned (snd (Get (storage st) key now))],
          st\<lparr>storage := fst (Get (storage st) key now)\<rparr>)"
      by (simp add: numeral_3_eq_3 Get_def)
    then show ?thesis ..
  qed
qed

text \<open>
  C8: two goroutines call \<^verbatim>\<open>Get\<close> on the same expired key. After each has taken the
  read lock and looked the key up, both stand before \<^verbatim>\<open>delete(s.storage, key)\<close> at the
  same time: the lock has two readers and no writer, and the entry is still in the map. The
  next step of either is a map write made under the shared lock only; the schedule then runs
  to the end with both deletes executed and both callers told not-found.
\<close>

theorem Get_deletes_under_read_lock:
  "run_Gets ''k'' 5 [0, 1, 0, 1]
     ([AtRLock, AtRLock],
      \<lparr>storage = Entries [''k'' \<mapsto> \<lparr>Data = [1], Expires = Some 4\<rparr>], mu = \<lparr>readers = 0, writer = False\<rparr>\<rparr>)
   = Some ([AtDelete, AtDelete],
      \<lparr>storage = Entries [''k'' \<mapsto> \<lparr>Data = [1], Expires = Some 4\<rparr>], mu = \<lparr>readers = 2, writer = False\<rparr>\<rparr>) \<and>
   run_Gets ''k'' 5 [0, 1, 0, 1, 0, 1, 0, 1]
     ([AtRLock, AtRLock],
      \<lparr>storage = Entries [''k'' \<mapsto> \<lparr>Data = [1], Expires = Some 4\<rparr>], mu = \<lparr>readers = 0, writer = False\<rparr>\<rparr>)
   = Some ([Returned ([], False), Returned ([], False)],
      \<lparr>storage = Entries Map.empty, mu = \<lparr>readers = 0, writer = False\<rparr>\<rparr>)"
  by (simp add: expired_def Before_def)

end
